theory Spec2Isabelle
  imports Main
begin

section \<open>The data model: descriptors handed to the provisioning SDK\<close>

text \<open>
  The repository is one Go program: \<open>cdk/cdk.go\<close> reads the deployment target from the
  process environment and calls \<open>lib.NewPlausibleStack\<close>, which assembles resource
  descriptors through the AWS CDK. The source tree holds two versions of
  \<open>NewPlausibleStack\<close>: \<open>cdk/lib/stack.go\<close>, which wraps the boot script in a multipart
  user-data object, and a second file that hands the instance the flat Linux user data.

  The CDK itself is not part of the repository. Its objects are modelled as the plain
  descriptors they hold: a Go struct of props is a record, an optional pointer field is an
  \<open>option\<close>, a construct registered in the stack is an entry of the stack's child list,
  and a Go pointer to such a construct is its id in that list.
\<close>

datatype error = NilPointerDereference

record Environment =
  Account :: "string option"
  Region :: "string option"

record StackProps =
  Env :: "Environment option"

record PlausibleStackProps =
  StackProps :: StackProps

text \<open>
  The root of the construct tree (\<open>awscdk.NewApp\<close>). A stack created without an explicit
  account or region answers \<open>Account()\<close> and \<open>Region()\<close> with the SDK's string-encoded
  tokens for the pseudo parameters \<open>AWS::AccountId\<close> and \<open>AWS::Region\<close>. Those strings
  are SDK constants that the repository does not contain, so they are parameters here.
\<close>

record App =
  Aws_ACCOUNT_ID :: string
  Aws_REGION :: string

type_synonym ref = string

record VpcLookupOptions =
  IsDefault :: "bool option"

datatype Protocol = TCP

record Port =
  protocol :: Protocol
  fromPort :: int
  toPort :: int

datatype Peer = CidrIPv4 string

record IngressRule =
  peer :: Peer
  connection :: Port
  description :: "string option"

record SecurityGroupProps =
  Vpc :: ref
  AllowAllOutbound :: "bool option"
  SecurityGroupName :: "string option"

record SecurityGroup =
  sgProps :: SecurityGroupProps
  ingressRules :: "IngressRule list"

datatype Principal = ServicePrincipal string

datatype ManagedPolicy = AwsManagedPolicy string

datatype Effect = ALLOW | DENY

record PolicyStatementProps =
  Effect :: Effect
  Actions :: "string list"
  Resources :: "string list"

record RoleProps =
  AssumedBy :: Principal
  ManagedPolicies :: "ManagedPolicy list"

record Role =
  roleProps :: RoleProps
  statements :: "PolicyStatementProps list"

record LinuxUserDataOptions =
  Shebang :: "string option"

record LinuxUserData =
  shebang :: string
  lines :: "string list"

record MultipartBody =
  contentType :: string
  body :: LinuxUserData

record MultipartUserData =
  parts :: "MultipartBody list"

datatype UserData = ForLinux LinuxUserData | Multipart MultipartUserData

record LookupMachineImageProps =
  Name :: string
  Owners :: "string list"

datatype InstanceClass = BURSTABLE3

datatype InstanceSize = MICRO

record InstanceProps =
  InstanceType :: "InstanceClass \<times> InstanceSize"
  MachineImage :: LookupMachineImageProps
  InstanceVpc :: ref
  InstanceSecurityGroup :: ref
  KeyPair :: ref
  InstanceRole :: ref
  InstanceUserData :: UserData

datatype Token = InstanceIdOf ref | RefOf ref

record CfnEIPProps =
  Domain :: "string option"
  InstanceId :: Token

record CfnOutputProps =
  Value :: Token
  Description :: "string option"

datatype Construct =
    AVpc VpcLookupOptions
  | ASecurityGroup SecurityGroup
  | ARole Role
  | AKeyPair string
  | AnInstance InstanceProps
  | ACfnEIP CfnEIPProps
  | ACfnOutput CfnOutputProps

record Stack =
  stackId :: string
  account :: string
  region :: string
  children :: "(string \<times> Construct) list"

section \<open>The SDK calls the program makes\<close>

text \<open>
  \<open>awscdk.NewStack\<close>: the stack's account and region are those of the props'
  environment where given, the pseudo-parameter tokens otherwise.
\<close>

definition NewStack :: "App \<Rightarrow> string \<Rightarrow> StackProps \<Rightarrow> Stack" where
  "NewStack scope id' props =
     \<lparr>stackId = id',
      account = (case Env props of
                   None \<Rightarrow> Aws_ACCOUNT_ID scope
                 | Some e \<Rightarrow> (case Account e of None \<Rightarrow> Aws_ACCOUNT_ID scope | Some a \<Rightarrow> a)),
      region = (case Env props of
                  None \<Rightarrow> Aws_REGION scope
                | Some e \<Rightarrow> (case Region e of None \<Rightarrow> Aws_REGION scope | Some r \<Rightarrow> r)),
      children = []\<rparr>"

definition addChild :: "Stack \<Rightarrow> string \<Rightarrow> Construct \<Rightarrow> Stack" where
  "addChild stack id' c = stack\<lparr>children := children stack @ [(id', c)]\<rparr>"

definition findChild :: "Stack \<Rightarrow> string \<Rightarrow> Construct option" where
  "findChild stack id' = map_of (children stack) id'"

definition updateChild :: "Stack \<Rightarrow> string \<Rightarrow> (Construct \<Rightarrow> Construct) \<Rightarrow> Stack" where
  "updateChild stack id' f =
     stack\<lparr>children := map (\<lambda>(k, c). if k = id' then (k, f c) else (k, c)) (children stack)\<rparr>"

definition Vpc_FromLookup :: "Stack \<Rightarrow> string \<Rightarrow> VpcLookupOptions \<Rightarrow> ref \<times> Stack" where
  "Vpc_FromLookup stack id' opts = (id', addChild stack id' (AVpc opts))"

definition NewSecurityGroup :: "Stack \<Rightarrow> string \<Rightarrow> SecurityGroupProps \<Rightarrow> ref \<times> Stack" where
  "NewSecurityGroup stack id' props =
     (id', addChild stack id' (ASecurityGroup \<lparr>sgProps = props, ingressRules = []\<rparr>))"

definition Peer_AnyIpv4 :: Peer where
  "Peer_AnyIpv4 = CidrIPv4 ''0.0.0.0/0''"

definition Port_Tcp :: "int \<Rightarrow> Port" where
  "Port_Tcp port = \<lparr>protocol = TCP, fromPort = port, toPort = port\<rparr>"

text \<open>
  \<open>sg.AddIngressRule(peer, connection, description, remoteRule)\<close>: the SDK keeps a rule
  only if the group does not hold an equal one yet. \<open>remoteRule\<close> matters for peers in
  another stack only.
\<close>

definition AddIngressRule ::
  "Stack \<Rightarrow> ref \<Rightarrow> Peer \<Rightarrow> Port \<Rightarrow> string option \<Rightarrow> bool option \<Rightarrow> Stack" where
  "AddIngressRule stack sg p conn desc remoteRule =
     updateChild stack sg (\<lambda>c. case c of
         ASecurityGroup g \<Rightarrow>
           (let rule = \<lparr>peer = p, connection = conn, description = desc\<rparr>
            in if rule \<in> set (ingressRules g) then ASecurityGroup g
               else ASecurityGroup (g\<lparr>ingressRules := ingressRules g @ [rule]\<rparr>))
       | _ \<Rightarrow> c)"

definition NewRole :: "Stack \<Rightarrow> string \<Rightarrow> RoleProps \<Rightarrow> ref \<times> Stack" where
  "NewRole stack id' props = (id', addChild stack id' (ARole \<lparr>roleProps = props, statements = []\<rparr>))"

definition NewPolicyStatement :: "PolicyStatementProps \<Rightarrow> PolicyStatementProps" where
  "NewPolicyStatement props = props"

definition AddToPolicy :: "Stack \<Rightarrow> ref \<Rightarrow> PolicyStatementProps \<Rightarrow> Stack" where
  "AddToPolicy stack role statement =
     updateChild stack role (\<lambda>c. case c of
         ARole r \<Rightarrow> ARole (r\<lparr>statements := statements r @ [statement]\<rparr>)
       | _ \<Rightarrow> c)"

definition UserData_ForLinux :: "LinuxUserDataOptions \<Rightarrow> LinuxUserData" where
  "UserData_ForLinux opts =
     \<lparr>shebang = (case Shebang opts of None \<Rightarrow> ''#!/bin/bash'' | Some s \<Rightarrow> s), lines = []\<rparr>"

definition AddCommands :: "LinuxUserData \<Rightarrow> string list \<Rightarrow> LinuxUserData" where
  "AddCommands userData commands = userData\<lparr>lines := lines userData @ commands\<rparr>"

definition NewMultipartUserData :: MultipartUserData where
  "NewMultipartUserData = \<lparr>parts = []\<rparr>"

definition MultipartBody_FromUserData :: "LinuxUserData \<Rightarrow> string \<Rightarrow> MultipartBody" where
  "MultipartBody_FromUserData userData ct = \<lparr>contentType = ct, body = userData\<rparr>"

definition AddPart :: "MultipartUserData \<Rightarrow> MultipartBody \<Rightarrow> MultipartUserData" where
  "AddPart userData part = userData\<lparr>parts := parts userData @ [part]\<rparr>"

definition KeyPair_FromKeyPairName :: "Stack \<Rightarrow> string \<Rightarrow> string \<Rightarrow> ref \<times> Stack" where
  "KeyPair_FromKeyPairName stack id' keyPairName = (id', addChild stack id' (AKeyPair keyPairName))"

definition NewInstance :: "Stack \<Rightarrow> string \<Rightarrow> InstanceProps \<Rightarrow> ref \<times> Stack" where
  "NewInstance stack id' props = (id', addChild stack id' (AnInstance props))"

definition NewCfnEIP :: "Stack \<Rightarrow> string \<Rightarrow> CfnEIPProps \<Rightarrow> ref \<times> Stack" where
  "NewCfnEIP stack id' props = (id', addChild stack id' (ACfnEIP props))"

definition NewCfnOutput :: "Stack \<Rightarrow> string \<Rightarrow> CfnOutputProps \<Rightarrow> ref \<times> Stack" where
  "NewCfnOutput stack id' props = (id', addChild stack id' (ACfnOutput props))"

subsection \<open>\<open>fmt.Sprintf\<close> on string operands\<close>

text \<open>
  The format is read left to right. \<open>%s\<close> and \<open>%v\<close> print the next operand as it is,
  \<open>%%\<close> prints a percent sign, a verb with no operand left prints \<open>%!s(MISSING)\<close>,
  a lone \<open>%\<close> at the end prints \<open>%!(NOVERB)\<close>, and operands left over are reported in
  \<open>%!(EXTRA string=...)\<close>. Any other verb is printed as Go prints a verb that strings do
  not support; flags, widths and the verbs \<open>q\<close>, \<open>x\<close>, \<open>X\<close> are outside this model
  (the program's one format uses \<open>%s\<close> only).
\<close>

fun extraOperands :: "string list \<Rightarrow> string" where
  "extraOperands [] = []"
| "extraOperands [a] = ''string='' @ a"
| "extraOperands (a # b # as) = ''string='' @ a @ '', '' @ extraOperands (b # as)"

fun Sprintf :: "string \<Rightarrow> string list \<Rightarrow> string" where
  "Sprintf [] args = (if args = [] then [] else ''%!(EXTRA '' @ extraOperands args @ '')'')"
| "Sprintf [c] args =
     (if c = CHR ''%'' then ''%!(NOVERB)'' @ Sprintf [] args else c # Sprintf [] args)"
| "Sprintf (c # v # rest) args =
     (if c \<noteq> CHR ''%'' then c # Sprintf (v # rest) args
      else if v = CHR ''%'' then CHR ''%'' # Sprintf rest args
      else (case args of
              [] \<Rightarrow> ''%!'' @ [v] @ ''(MISSING)'' @ Sprintf rest []
            | a # as \<Rightarrow>
                (if v = CHR ''s'' \<or> v = CHR ''v'' then a
                 else ''%!'' @ [v] @ ''(string='' @ a @ '')'') @ Sprintf rest as))"

section \<open>The boot script\<close>

text \<open>
  The arguments of the one \<open>AddCommands\<close> call of each file, in the order written.
  A Go raw string keeps its line breaks and its indentation, so the command that writes the
  nginx site is spelled out byte by byte; \<open>tabs n\<close> is a run of \<open>n\<close> tab characters.
\<close>

definition tabs :: "nat \<Rightarrow> string" where
  "tabs n = replicate n (CHR 0x09)"

definition commands :: "string list" where
  "commands =
    [
     ''sudo apt-get update -y'',
     ''sudo apt-get install -y docker.io docker-compose git awscli'',
     ''sudo systemctl enable docker'',
     ''sudo systemctl start docker'',
     ''REGION=$(curl -s http://169.254.169.254/latest/meta-data/placement/region)'',
     ''export SECRET_KEY_BASE=$(aws ssm get-parameter --name '/plausible/secret_key_base' --with-decryption --query Parameter.Value --output text --region $REGION)'',
     ''export POSTGRES_PASSWORD=$(aws ssm get-parameter --name '/plausible/postgres_password' --with-decryption --query Parameter.Value --output text --region $REGION)'',
     ''export BASE_URL='https://analytics.ilmarlopez.com'' @ [CHR 0x27],
     ''cd /home/ubuntu'',
     ''git clone https://github.com/IlmarLopez/plausible-hosting.git'',
     ''cd plausible-hosting'',
     ''sudo docker-compose up -d'',
     ''sudo apt-get install -y nginx python3-certbot-nginx'',
     ''sudo systemctl enable nginx'',
     ''sudo systemctl start nginx'',
     ''\<newline>'' @
       tabs 3 @ ''sudo bash -c 'cat > /etc/nginx/sites-available/plausible <<'EOF'\<newline>'' @
       tabs 3 @ ''server {\<newline>'' @
       tabs 5 @ ''listen 80;\<newline>'' @
       tabs 5 @ ''server_name analytics.ilmarlopez.com;\<newline>'' @
       ''\<newline>'' @
       tabs 5 @ ''location / {\<newline>'' @
       tabs 7 @ ''proxy_pass http://localhost:8000;\<newline>'' @
       tabs 7 @ ''proxy_set_header Host $host;\<newline>'' @
       tabs 7 @ ''proxy_set_header X-Real-IP $remote_addr;\<newline>'' @
       tabs 7 @ ''proxy_set_header X-Forwarded-For $proxy_add_x_forwarded_for;\<newline>'' @
       tabs 7 @ ''proxy_set_header X-Forwarded-Proto $scheme;\<newline>'' @
       tabs 5 @ ''}\<newline>'' @
       tabs 3 @ ''}\<newline>'' @
       tabs 3 @ ''EOF'' @ [CHR 0x27],
     ''sudo ln -s /etc/nginx/sites-available/plausible /etc/nginx/sites-enabled/'',
     ''sudo rm /etc/nginx/sites-enabled/default'',
     ''sudo nginx -t'',
     ''sudo systemctl restart nginx'',
     ''sudo certbot --nginx -n --agree-tos --email me@ilmarlopez.com -d analytics.ilmarlopez.com --redirect'',
     ''echo '0 0 * * * root /usr/bin/certbot renew --quiet' | sudo tee /etc/cron.d/certbot-renew''
    ]"

definition commands_flat :: "string list" where
  "commands_flat =
    [
     ''sudo apt-get update -y'',
     ''sudo apt-get install -y docker.io docker-compose git awscli'',
     ''sudo systemctl enable docker'',
     ''sudo systemctl start docker'',
     ''REGION=$(curl -s http://169.254.169.254/latest/meta-data/placement/region)'',
     ''export SECRET_KEY_BASE=$(aws ssm get-parameter --name '/plausible/secret_key_base' --with-decryption --query Parameter.Value --output text --region $REGION)'',
     ''export POSTGRES_PASSWORD=$(aws ssm get-parameter --name '/plausible/postgres_password' --with-decryption --query Parameter.Value --output text --region $REGION)'',
     ''export BASE_URL='https://analytics.ilmarlopez.com'' @ [CHR 0x27],
     ''cd /home/ubuntu'',
     ''git clone https://github.com/IlmarLopez/plausible-hosting.git'',
     ''cd plausible-hosting'',
     ''sudo docker-compose up -d'',
     ''sudo apt-get install -y nginx python3-certbot-nginx'',
     ''sudo systemctl enable nginx'',
     ''sudo systemctl start nginx'',
     ''sudo tee /etc/nginx/sites-available/plausible > /dev/null << 'EOF'\<newline>'' @
       ''server {\<newline>'' @
       ''    listen 80;\<newline>'' @
       ''    server_name analytics.ilmarlopez.com;\<newline>'' @
       ''\<newline>'' @
       ''    location / {\<newline>'' @
       ''        proxy_pass http://localhost:8000;\<newline>'' @
       ''        proxy_set_header Host $host;\<newline>'' @
       ''        proxy_set_header X-Real-IP $remote_addr;\<newline>'' @
       ''        proxy_set_header X-Forwarded-For $proxy_add_x_forwarded_for;\<newline>'' @
       ''        proxy_set_header X-Forwarded-Proto $scheme;\<newline>'' @
       ''    }\<newline>'' @
       ''}\<newline>'' @
       ''EOF\<newline>'',
     ''sudo ln -s /etc/nginx/sites-available/plausible /etc/nginx/sites-enabled/'',
     ''sudo rm /etc/nginx/sites-enabled/default'',
     ''sudo nginx -t'',
     ''sudo systemctl restart nginx'',
     ''sudo certbot --nginx -n --agree-tos --email me@ilmarlopez.com -d analytics.ilmarlopez.com --redirect'',
     ''echo '0 0 * * * root /usr/bin/certbot renew --quiet' | sudo tee /etc/cron.d/certbot-renew''
    ]"

section \<open>\<open>NewPlausibleStack\<close>, as in \<open>cdk/lib/stack.go\<close> (multipart user data)\<close>

text \<open>
  \<open>&props.StackProps\<close> on a nil \<open>props\<close> panics; every other step builds a descriptor.
  Each \<open>let\<close> is one statement of the Go function, in its order.
\<close>

definition NewPlausibleStack :: "App \<Rightarrow> string \<Rightarrow> PlausibleStackProps option \<Rightarrow> error + Stack" where
  \<open>NewPlausibleStack scope id' props = (case props of
     None \<Rightarrow> Inl NilPointerDereference
   | Some p \<Rightarrow>
      (let stack = NewStack scope id' (StackProps p);
           accountId = account stack;
           region = region stack;

           (vpc, stack) = Vpc_FromLookup stack ''DefaultVPC'' \<lparr>IsDefault = Some True\<rparr>;

           (sg, stack) = NewSecurityGroup stack ''PlausibleSG''
             \<lparr>Vpc = vpc, AllowAllOutbound = Some True, SecurityGroupName = Some ''PlausibleSG''\<rparr>;

           stack = AddIngressRule stack sg Peer_AnyIpv4 (Port_Tcp 22) (Some ''Allow SSH'') None;
           stack = AddIngressRule stack sg Peer_AnyIpv4 (Port_Tcp 80) (Some ''Allow HTTP'') None;
           stack = AddIngressRule stack sg Peer_AnyIpv4 (Port_Tcp 443) (Some ''Allow HTTPS'') None;

           (role, stack) = NewRole stack ''InstanceSSMRole''
             \<lparr>AssumedBy = ServicePrincipal ''ec2.amazonaws.com'',
              ManagedPolicies = [AwsManagedPolicy ''AmazonSSMManagedInstanceCore'']\<rparr>;

           stack = AddToPolicy stack role (NewPolicyStatement
             \<lparr>Effect = ALLOW,
              Actions = [''ssm:GetParameter'', ''ssm:GetParameters''],
              Resources =
                [Sprintf ''arn:aws:ssm:%s:%s:parameter/plausible/*'' [region, accountId]]\<rparr>);

           userData = NewMultipartUserData;

           linuxCommands = UserData_ForLinux \<lparr>Shebang = Some ''#!/bin/bash''\<rparr>;

           linuxCommands = AddCommands linuxCommands commands;

           linuxUserDataPart = MultipartBody_FromUserData linuxCommands
             ''text/x-shellscript; charset="utf-8"'';

           userData = AddPart userData linuxUserDataPart;

           ami = \<lparr>Name = ''ubuntu/images/hvm-ssd/ubuntu-focal-20.04-amd64-server-*'',
                  Owners = [''099720109477'']\<rparr>;

           (keyPair, stack) = KeyPair_FromKeyPairName stack ''KeyPairName'' ''plausible-keypair'';
           (instance, stack) = NewInstance stack ''PlausibleInstance''
             \<lparr>InstanceType = (BURSTABLE3, MICRO),
              MachineImage = ami,
              InstanceVpc = vpc,
              InstanceSecurityGroup = sg,
              KeyPair = keyPair,
              InstanceRole = role,
              InstanceUserData = Multipart userData\<rparr>;

           (eip, stack) = NewCfnEIP stack ''InstanceEIP''
             \<lparr>Domain = Some ''vpc'', InstanceId = InstanceIdOf instance\<rparr>;

           (output, stack) = NewCfnOutput stack ''InstancePublicIP''
             \<lparr>Value = RefOf eip,
              Description = Some ''The public IP address of the EC2 instance''\<rparr>

       in Inr stack))\<close>

section \<open>\<open>NewPlausibleStack\<close>, second source file (flat user data)\<close>

definition NewPlausibleStack_flat :: "App \<Rightarrow> string \<Rightarrow> PlausibleStackProps option \<Rightarrow> error + Stack" where
  \<open>NewPlausibleStack_flat scope id' props = (case props of
     None \<Rightarrow> Inl NilPointerDereference
   | Some p \<Rightarrow>
      (let stack = NewStack scope id' (StackProps p);
           accountId = account stack;
           region = region stack;

           (vpc, stack) = Vpc_FromLookup stack ''DefaultVPC'' \<lparr>IsDefault = Some True\<rparr>;

           (sg, stack) = NewSecurityGroup stack ''PlausibleSG''
             \<lparr>Vpc = vpc, AllowAllOutbound = Some True, SecurityGroupName = Some ''PlausibleSG''\<rparr>;

           stack = AddIngressRule stack sg Peer_AnyIpv4 (Port_Tcp 22) (Some ''Allow SSH'') None;
           stack = AddIngressRule stack sg Peer_AnyIpv4 (Port_Tcp 80) (Some ''Allow HTTP'') None;
           stack = AddIngressRule stack sg Peer_AnyIpv4 (Port_Tcp 443) (Some ''Allow HTTPS'') None;

           (role, stack) = NewRole stack ''InstanceSSMRole''
             \<lparr>AssumedBy = ServicePrincipal ''ec2.amazonaws.com'',
              ManagedPolicies = [AwsManagedPolicy ''AmazonSSMManagedInstanceCore'']\<rparr>;

           stack = AddToPolicy stack role (NewPolicyStatement
             \<lparr>Effect = ALLOW,
              Actions = [''ssm:GetParameter'', ''ssm:GetParameters''],
              Resources =
                [Sprintf ''arn:aws:ssm:%s:%s:parameter/plausible/*'' [region, accountId]]\<rparr>);

           ami = \<lparr>Name = ''ubuntu/images/hvm-ssd/ubuntu-focal-20.04-amd64-server-*'',
                  Owners = [''099720109477'']\<rparr>;

           userData = UserData_ForLinux \<lparr>Shebang = Some ''#!/bin/bash''\<rparr>;

           userData = AddCommands userData commands_flat;

           (keyPair, stack) = KeyPair_FromKeyPairName stack ''KeyPairName'' ''plausible-keypair'';
           (instance, stack) = NewInstance stack ''PlausibleInstance''
             \<lparr>InstanceType = (BURSTABLE3, MICRO),
              MachineImage = ami,
              InstanceVpc = vpc,
              InstanceSecurityGroup = sg,
              KeyPair = keyPair,
              InstanceRole = role,
              InstanceUserData = ForLinux userData\<rparr>;

           (eip, stack) = NewCfnEIP stack ''InstanceEIP''
             \<lparr>Domain = Some ''vpc'', InstanceId = InstanceIdOf instance\<rparr>;

           (output, stack) = NewCfnOutput stack ''InstancePublicIP''
             \<lparr>Value = RefOf eip,
              Description = Some ''The public IP address of the EC2 instance''\<rparr>

       in Inr stack))\<close>

section \<open>The deployment target, \<open>cdk/cdk.go\<close>\<close>

text \<open>
  The process environment is a map from names to values; \<open>os.Getenv\<close> answers the
  empty string for a name that is not set. \<open>env\<close> puts the two values into the
  environment of the stack props without looking at them. \<open>main\<close> calls
  \<open>NewPlausibleStack\<close> with the id \<open>plausible-stack\<close> and props whose environment is
  \<open>env()\<close>, and then hands the tree to \<open>app.Synth\<close>; that last call is the SDK's and is
  not modelled, so nothing below speaks of \<open>main\<close> as a whole.
\<close>

definition os_Getenv :: "(string \<rightharpoonup> string) \<Rightarrow> string \<Rightarrow> string" where
  "os_Getenv environ key = (case environ key of None \<Rightarrow> [] | Some v \<Rightarrow> v)"

definition env :: "(string \<rightharpoonup> string) \<Rightarrow> Environment" where
  "env environ =
     \<lparr>Account = Some (os_Getenv environ ''CDK_DEFAULT_ACCOUNT''),
      Region = Some (os_Getenv environ ''CDK_DEFAULT_REGION'')\<rparr>"

section \<open>Reading the finished stack\<close>

text \<open>
  The instance is the child \<open>PlausibleInstance\<close>; its security group and its role are
  the children its props point to.
\<close>

definition theInstance :: "Stack \<Rightarrow> InstanceProps option" where
  "theInstance stack =
     (case findChild stack ''PlausibleInstance'' of Some (AnInstance p) \<Rightarrow> Some p | _ \<Rightarrow> None)"

definition theSecurityGroup :: "Stack \<Rightarrow> SecurityGroup option" where
  "theSecurityGroup stack =
     (case theInstance stack of
        None \<Rightarrow> None
      | Some p \<Rightarrow> (case findChild stack (InstanceSecurityGroup p) of
                    Some (ASecurityGroup g) \<Rightarrow> Some g | _ \<Rightarrow> None))"

definition theRole :: "Stack \<Rightarrow> Role option" where
  "theRole stack =
     (case theInstance stack of
        None \<Rightarrow> None
      | Some p \<Rightarrow> (case findChild stack (InstanceRole p) of
                    Some (ARole r) \<Rightarrow> Some r | _ \<Rightarrow> None))"

text \<open>
  The commands of a user-data object in the order the instance runs them: the lines of the
  flat form, the lines of each part in turn for the multipart form.
\<close>

fun commandsOf :: "UserData \<Rightarrow> string list" where
  "commandsOf (ForLinux u) = lines u"
| "commandsOf (Multipart m) = concat (map (\<lambda>part. lines (body part)) (parts m))"

definition bootCommands :: "error + Stack \<Rightarrow> string list option" where
  "bootCommands result =
     (case result of
        Inl e \<Rightarrow> None
      | Inr stack \<Rightarrow> map_option (\<lambda>p. commandsOf (InstanceUserData p)) (theInstance stack))"

definition iamResources :: "Stack \<Rightarrow> string list" where
  "iamResources stack =
     (case theRole stack of None \<Rightarrow> [] | Some r \<Rightarrow> concat (map Resources (statements r)))"

section \<open>Naming the phases of the boot script\<close>

text \<open>
  The commands are opaque strings to the program. To speak of their order, a command is
  recognised by its text: the region discovery assigns \<open>REGION\<close> from the metadata
  endpoint, a secret export assigns one of the two secret variables, the workload start
  runs \<open>docker-compose up\<close>, the certificate issuance is the \<open>certbot\<close> invocation, and a
  reverse-proxy command is any other command that mentions \<open>nginx\<close>.
\<close>

definition startsWith :: "string \<Rightarrow> string \<Rightarrow> bool" where
  "startsWith s p = (take (length p) s = p)"

fun contains :: "string \<Rightarrow> string \<Rightarrow> bool" where
  "contains [] sub = (sub = [])"
| "contains (c # cs) sub = (startsWith (c # cs) sub \<or> contains cs sub)"

fun positionsFrom :: "nat \<Rightarrow> (string \<Rightarrow> bool) \<Rightarrow> string list \<Rightarrow> nat list" where
  "positionsFrom n P [] = []"
| "positionsFrom n P (x # xs) =
     (if P x then n # positionsFrom (Suc n) P xs else positionsFrom (Suc n) P xs)"

definition positions :: "(string \<Rightarrow> bool) \<Rightarrow> string list \<Rightarrow> nat list" where
  "positions P xs = positionsFrom 0 P xs"

definition isRegionDiscovery :: "string \<Rightarrow> bool" where
  "isRegionDiscovery c =
     (startsWith c ''REGION=$(curl '' \<and>
      contains c ''169.254.169.254/latest/meta-data/placement/region'')"

definition isSecretExport :: "string \<Rightarrow> bool" where
  "isSecretExport c =
     (startsWith c ''export SECRET_KEY_BASE='' \<or> startsWith c ''export POSTGRES_PASSWORD='')"

definition isWorkloadStart :: "string \<Rightarrow> bool" where
  "isWorkloadStart c = contains c ''docker-compose up''"

definition isCertIssuance :: "string \<Rightarrow> bool" where
  "isCertIssuance c = startsWith c ''sudo certbot ''"

definition isProxyConfig :: "string \<Rightarrow> bool" where
  "isProxyConfig c = (contains c ''nginx'' \<and> \<not> isCertIssuance c)"

section \<open>What the last command does to the cron file\<close>

text \<open>
  The boot script is run by the instance's shell; neither the shell nor the utilities it
  calls belong to the repository. For the one command whose effect on a file matters
  here, the fragment of the shell it uses is modelled from the POSIX description of the
  tools: blanks separate words, single quotes make one word of the text between them, the
  word \<open>|\<close> separates the stages of a pipeline, and the output of a stage is the input of
  the next. \<open>echo\<close> writes its operands joined by blanks and a line break. \<open>tee\<close> copies
  its input to its output and to every file operand, replacing the content of the file, or
  adding to it when the option \<open>-a\<close> is given. \<open>sudo\<close> runs the words after it. Any other
  utility is outside the fragment (\<open>None\<close>).
\<close>

type_synonym files = "string \<rightharpoonup> string"

fun shellWords :: "string \<Rightarrow> bool \<Rightarrow> string \<Rightarrow> string list" where
  "shellWords [] quoted w = (if w = [] then [] else [w])"
| "shellWords (c # cs) quoted w =
     (if c = CHR 0x27 then shellWords cs (\<not> quoted) w
      else if c = CHR '' '' \<and> \<not> quoted then
        (if w = [] then shellWords cs quoted [] else w # shellWords cs quoted [])
      else shellWords cs quoted (w @ [c]))"

fun pipelineStages :: "string list \<Rightarrow> string list list" where
  "pipelineStages [] = [[]]"
| "pipelineStages (w # ws) =
     (if w = ''|'' then [] # pipelineStages ws
      else (case pipelineStages ws of [] \<Rightarrow> [[w]] | s # ss \<Rightarrow> (w # s) # ss))"

fun joinWords :: "string list \<Rightarrow> string" where
  "joinWords [] = []"
| "joinWords [w] = w"
| "joinWords (w # v # ws) = w @ '' '' @ joinWords (v # ws)"

fun teeFiles :: "bool \<Rightarrow> string list \<Rightarrow> string \<Rightarrow> files \<Rightarrow> files" where
  "teeFiles appending [] input fs = fs"
| "teeFiles appending (f # rest) input fs =
     teeFiles appending rest input
       (fs(f \<mapsto> (if appending then (case fs f of None \<Rightarrow> [] | Some old \<Rightarrow> old) else []) @ input))"

fun runSimple :: "string list \<Rightarrow> string \<Rightarrow> files \<Rightarrow> (string \<times> files) option" where
  "runSimple [] input fs = None"
| "runSimple (w # ws) input fs =
     (if w = ''sudo'' then runSimple ws input fs
      else if w = ''echo'' then Some (joinWords ws @ ''\<newline>'', fs)
      else if w = ''tee'' then
        Some (input,
              teeFiles (''-a'' \<in> set ws) (filter (\<lambda>f. \<not> startsWith f ''-'') ws) input fs)
      else None)"

fun runPipeline :: "string list list \<Rightarrow> string \<Rightarrow> files \<Rightarrow> files option" where
  "runPipeline [] input fs = Some fs"
| "runPipeline (s # ss) input fs =
     (case runSimple s input fs of
        None \<Rightarrow> None
      | Some (out, fs') \<Rightarrow> runPipeline ss out fs')"

definition runCommand :: "string \<Rightarrow> files \<Rightarrow> files option" where
  "runCommand c fs = runPipeline (pipelineStages (shellWords c False [])) [] fs"

fun runTimes :: "nat \<Rightarrow> string \<Rightarrow> files \<Rightarrow> files option" where
  "runTimes 0 c fs = Some fs"
| "runTimes (Suc n) c fs =
     (case runCommand c fs of None \<Rightarrow> None | Some fs' \<Rightarrow> runTimes n c fs')"

definition readFile :: "string \<Rightarrow> files option \<Rightarrow> string option" where
  "readFile path r = (case r of None \<Rightarrow> None | Some fs \<Rightarrow> fs path)"

section \<open>Facts about the builders\<close>

lemmas sdk_defs = NewStack_def Vpc_FromLookup_def NewSecurityGroup_def AddIngressRule_def
  NewRole_def NewPolicyStatement_def AddToPolicy_def UserData_ForLinux_def AddCommands_def
  NewMultipartUserData_def MultipartBody_FromUserData_def AddPart_def
  KeyPair_FromKeyPairName_def NewInstance_def NewCfnEIP_def NewCfnOutput_def addChild_def
  updateChild_def Peer_AnyIpv4_def Port_Tcp_def

lemmas read_defs = theInstance_def theSecurityGroup_def theRole_def findChild_def

lemma NewPlausibleStack_nil: "NewPlausibleStack scope i None = Inl NilPointerDereference"
  by (simp add: NewPlausibleStack_def)

lemma NewPlausibleStack_flat_nil:
  "NewPlausibleStack_flat scope i None = Inl NilPointerDereference"
  by (simp add: NewPlausibleStack_flat_def)

lemma NewPlausibleStack_returns: "\<exists>st. NewPlausibleStack scope i (Some p) = Inr st"
  by (simp add: NewPlausibleStack_def Let_def split_beta)

lemma NewPlausibleStack_flat_returns: "\<exists>st. NewPlausibleStack_flat scope i (Some p) = Inr st"
  by (simp add: NewPlausibleStack_flat_def Let_def split_beta)

lemma Sprintf_arn:
  "Sprintf ''arn:aws:ssm:%s:%s:parameter/plausible/*'' [r, a] =
   ''arn:aws:ssm:'' @ r @ '':'' @ a @ '':parameter/plausible/*''"
  by simp

lemma stack_env:
  assumes "NewPlausibleStack scope i (Some p) = Inr st"
  shows "account st = account (NewStack scope i (StackProps p))"
    and "region st = region (NewStack scope i (StackProps p))"
  using assms by (auto simp add: NewPlausibleStack_def Let_def sdk_defs)

lemma stack_env_flat:
  assumes "NewPlausibleStack_flat scope i (Some p) = Inr st"
  shows "account st = account (NewStack scope i (StackProps p))"
    and "region st = region (NewStack scope i (StackProps p))"
  using assms by (auto simp add: NewPlausibleStack_flat_def Let_def sdk_defs)

lemma theSecurityGroup_built:
  assumes "NewPlausibleStack scope i (Some p) = Inr st"
  shows "theSecurityGroup st = Some
    \<lparr>sgProps = \<lparr>Vpc = ''DefaultVPC'', AllowAllOutbound = Some True,
                SecurityGroupName = Some ''PlausibleSG''\<rparr>,
     ingressRules =
       [\<lparr>peer = CidrIPv4 ''0.0.0.0/0'',
         connection = \<lparr>protocol = TCP, fromPort = 22, toPort = 22\<rparr>,
         description = Some ''Allow SSH''\<rparr>,
        \<lparr>peer = CidrIPv4 ''0.0.0.0/0'',
         connection = \<lparr>protocol = TCP, fromPort = 80, toPort = 80\<rparr>,
         description = Some ''Allow HTTP''\<rparr>,
        \<lparr>peer = CidrIPv4 ''0.0.0.0/0'',
         connection = \<lparr>protocol = TCP, fromPort = 443, toPort = 443\<rparr>,
         description = Some ''Allow HTTPS''\<rparr>]\<rparr>"
  using assms by (auto simp add: NewPlausibleStack_def Let_def sdk_defs read_defs)

lemma theSecurityGroup_built_flat:
  assumes "NewPlausibleStack_flat scope i (Some p) = Inr st"
  shows "theSecurityGroup st = Some
    \<lparr>sgProps = \<lparr>Vpc = ''DefaultVPC'', AllowAllOutbound = Some True,
                SecurityGroupName = Some ''PlausibleSG''\<rparr>,
     ingressRules =
       [\<lparr>peer = CidrIPv4 ''0.0.0.0/0'',
         connection = \<lparr>protocol = TCP, fromPort = 22, toPort = 22\<rparr>,
         description = Some ''Allow SSH''\<rparr>,
        \<lparr>peer = CidrIPv4 ''0.0.0.0/0'',
         connection = \<lparr>protocol = TCP, fromPort = 80, toPort = 80\<rparr>,
         description = Some ''Allow HTTP''\<rparr>,
        \<lparr>peer = CidrIPv4 ''0.0.0.0/0'',
         connection = \<lparr>protocol = TCP, fromPort = 443, toPort = 443\<rparr>,
         description = Some ''Allow HTTPS''\<rparr>]\<rparr>"
  using assms by (auto simp add: NewPlausibleStack_flat_def Let_def sdk_defs read_defs)

lemma theRole_built:
  assumes "NewPlausibleStack scope i (Some p) = Inr st"
  shows "theRole st = Some
    \<lparr>roleProps = \<lparr>AssumedBy = ServicePrincipal ''ec2.amazonaws.com'',
                  ManagedPolicies = [AwsManagedPolicy ''AmazonSSMManagedInstanceCore'']\<rparr>,
     statements =
       [\<lparr>Effect = ALLOW,
         Actions = [''ssm:GetParameter'', ''ssm:GetParameters''],
         Resources =
           [''arn:aws:ssm:'' @ region st @ '':'' @ account st @ '':parameter/plausible/*'']\<rparr>]\<rparr>"
  using assms by (auto simp add: NewPlausibleStack_def Let_def sdk_defs read_defs)

lemma theRole_built_flat:
  assumes "NewPlausibleStack_flat scope i (Some p) = Inr st"
  shows "theRole st = Some
    \<lparr>roleProps = \<lparr>AssumedBy = ServicePrincipal ''ec2.amazonaws.com'',
                  ManagedPolicies = [AwsManagedPolicy ''AmazonSSMManagedInstanceCore'']\<rparr>,
     statements =
       [\<lparr>Effect = ALLOW,
         Actions = [''ssm:GetParameter'', ''ssm:GetParameters''],
         Resources =
           [''arn:aws:ssm:'' @ region st @ '':'' @ account st @ '':parameter/plausible/*'']\<rparr>]\<rparr>"
  using assms by (auto simp add: NewPlausibleStack_flat_def Let_def sdk_defs read_defs)

lemma iamResources_built:
  assumes "NewPlausibleStack scope i (Some p) = Inr st"
  shows "iamResources st =
    [''arn:aws:ssm:'' @ region st @ '':'' @ account st @ '':parameter/plausible/*'']"
  by (simp add: iamResources_def theRole_built [OF assms])

lemma iamResources_built_flat:
  assumes "NewPlausibleStack_flat scope i (Some p) = Inr st"
  shows "iamResources st =
    [''arn:aws:ssm:'' @ region st @ '':'' @ account st @ '':parameter/plausible/*'']"
  by (simp add: iamResources_def theRole_built_flat [OF assms])

lemma bootCommands_built: "bootCommands (NewPlausibleStack scope i (Some p)) = Some commands"
  by (simp add: bootCommands_def NewPlausibleStack_def Let_def sdk_defs read_defs)

lemma bootCommands_built_flat:
  "bootCommands (NewPlausibleStack_flat scope i (Some p)) = Some commands_flat"
  by (simp add: bootCommands_def NewPlausibleStack_flat_def Let_def sdk_defs read_defs)

lemma bootCommands_cases:
  assumes "bootCommands (NewPlausibleStack scope i props) = Some cmds \<or>
           bootCommands (NewPlausibleStack_flat scope i props) = Some cmds"
  shows "cmds = commands \<or> cmds = commands_flat"
proof (cases props)
  case None
  then show ?thesis
    using assms by (simp add: bootCommands_def NewPlausibleStack_nil NewPlausibleStack_flat_nil)
next
  case (Some p)
  then show ?thesis
    using assms by (auto simp add: bootCommands_built bootCommands_built_flat)
qed

subsection \<open>Positions in a command list\<close>

lemma positionsFrom_iff:
  "i \<in> set (positionsFrom n P xs) \<longleftrightarrow> n \<le> i \<and> i - n < length xs \<and> P (xs ! (i - n))"
proof (induction xs arbitrary: n)
  case Nil
  then show ?case by simp
next
  case (Cons x xs)
  show ?case
  proof (cases "i = n")
    case True
    then show ?thesis using Cons.IH [of "Suc n"] by auto
  next
    case False
    then have "i - n = Suc (i - Suc n) \<or> i < n" by arith
    then show ?thesis using False Cons.IH [of "Suc n"] by auto
  qed
qed

lemma positions_iff: "i \<in> set (positions P xs) \<longleftrightarrow> i < length xs \<and> P (xs ! i)"
  by (simp add: positions_def positionsFrom_iff)

lemma tabs_unfold:
  "tabs 3 = [CHR 0x09, CHR 0x09, CHR 0x09]"
  "tabs 5 = [CHR 0x09, CHR 0x09, CHR 0x09, CHR 0x09, CHR 0x09]"
  "tabs 7 = [CHR 0x09, CHR 0x09, CHR 0x09, CHR 0x09, CHR 0x09, CHR 0x09, CHR 0x09]"
  by (simp_all add: tabs_def eval_nat_numeral)

lemma positions_commands:
  "positions isRegionDiscovery commands = [4]"
  "positions isSecretExport commands = [5, 6]"
  "positions isWorkloadStart commands = [11]"
  "positions isProxyConfig commands = [12, 13, 14, 15, 16, 17, 18, 19]"
  "positions isCertIssuance commands = [20]"
  by (simp_all add: positions_def commands_def tabs_unfold startsWith_def isRegionDiscovery_def
      isSecretExport_def isWorkloadStart_def isProxyConfig_def isCertIssuance_def)

lemma positions_commands_flat:
  "positions isRegionDiscovery commands_flat = [4]"
  "positions isSecretExport commands_flat = [5, 6]"
  "positions isWorkloadStart commands_flat = [11]"
  "positions isProxyConfig commands_flat = [12, 13, 14, 15, 16, 17, 18, 19]"
  "positions isCertIssuance commands_flat = [20]"
  by (simp_all add: positions_def commands_flat_def startsWith_def isRegionDiscovery_def
      isSecretExport_def isWorkloadStart_def isProxyConfig_def isCertIssuance_def)

lemma named_commands:
  "commands ! 12 = ''sudo apt-get install -y nginx python3-certbot-nginx'' \<and>
   contains (commands ! 15) ''/etc/nginx/sites-available/plausible'' \<and>
         contains (commands ! 15) ''server_name analytics.ilmarlopez.com;'' \<and>
   commands ! 16 =
     ''sudo ln -s /etc/nginx/sites-available/plausible /etc/nginx/sites-enabled/'' \<and>
   commands ! 18 = ''sudo nginx -t'' \<and>
   commands ! 19 = ''sudo systemctl restart nginx'' \<and>
   commands ! 20 = ''sudo certbot --nginx -n --agree-tos --email me@ilmarlopez.com -d analytics.ilmarlopez.com --redirect''"
  by (simp add: commands_def tabs_unfold startsWith_def)

lemma named_commands_flat:
  "commands_flat ! 12 = ''sudo apt-get install -y nginx python3-certbot-nginx'' \<and>
   contains (commands_flat ! 15) ''/etc/nginx/sites-available/plausible'' \<and>
         contains (commands_flat ! 15) ''server_name analytics.ilmarlopez.com;'' \<and>
   commands_flat ! 16 =
     ''sudo ln -s /etc/nginx/sites-available/plausible /etc/nginx/sites-enabled/'' \<and>
   commands_flat ! 18 = ''sudo nginx -t'' \<and>
   commands_flat ! 19 = ''sudo systemctl restart nginx'' \<and>
   commands_flat ! 20 = ''sudo certbot --nginx -n --agree-tos --email me@ilmarlopez.com -d analytics.ilmarlopez.com --redirect''"
  by (simp add: commands_flat_def startsWith_def)

subsection \<open>The two command lists side by side\<close>

lemma commands_length: "length commands_flat = 22" "length commands = 22"
  by (simp_all add: commands_def commands_flat_def)

lemma commands_agree:
  "take 15 commands_flat = take 15 commands"
  "drop 16 commands_flat = drop 16 commands"
  "commands_flat[15 := commands ! 15] = commands"
  by (simp_all add: commands_def commands_flat_def)

lemma site_config_differs: "commands_flat ! 15 \<noteq> commands ! 15"
  by (simp add: commands_def commands_flat_def)

lemma multipart_one_part:
  assumes "NewPlausibleStack scope i (Some p) = Inr st"
  shows \<open>\<exists>u. map_option InstanceUserData (theInstance st) = Some (Multipart u) \<and>
             map contentType (parts u) = [''text/x-shellscript; charset="utf-8"'']\<close>
  using assms by (auto simp add: NewPlausibleStack_def Let_def sdk_defs read_defs)

lemma last_commands:
  "last commands =
     ''echo '0 0 * * * root /usr/bin/certbot renew --quiet' | sudo tee /etc/cron.d/certbot-renew''"
  by (simp add: commands_def)

lemma last_commands_flat:
  "last commands_flat =
     ''echo '0 0 * * * root /usr/bin/certbot renew --quiet' | sudo tee /etc/cron.d/certbot-renew''"
  by (simp add: commands_flat_def)

lemma runCommand_last:
  "runCommand
     ''echo '0 0 * * * root /usr/bin/certbot renew --quiet' | sudo tee /etc/cron.d/certbot-renew''
     fs =
   Some (fs(''/etc/cron.d/certbot-renew'' \<mapsto>
            ''0 0 * * * root /usr/bin/certbot renew --quiet\<newline>''))"
  by (simp add: runCommand_def startsWith_def)

lemma env_resources:
  assumes "NewPlausibleStack app i (Some \<lparr>StackProps = \<lparr>Env = Some (env environ)\<rparr>\<rparr>) = Inr st"
  shows "iamResources st =
      [''arn:aws:ssm:'' @ os_Getenv environ ''CDK_DEFAULT_REGION'' @ '':'' @
       os_Getenv environ ''CDK_DEFAULT_ACCOUNT'' @ '':parameter/plausible/*'']"
  by (simp add: iamResources_built [OF assms] stack_env [OF assms] NewStack_def env_def)

lemma env_resources_flat:
  assumes "NewPlausibleStack_flat app i (Some \<lparr>StackProps = \<lparr>Env = Some (env environ)\<rparr>\<rparr>) = Inr st"
  shows "iamResources st =
      [''arn:aws:ssm:'' @ os_Getenv environ ''CDK_DEFAULT_REGION'' @ '':'' @
       os_Getenv environ ''CDK_DEFAULT_ACCOUNT'' @ '':parameter/plausible/*'']"
  by (simp add: iamResources_built_flat [OF assms] stack_env_flat [OF assms] NewStack_def env_def)

section \<open>The IAM policy statement\<close>

text \<open>
  C1. When the props carry an account and a region, the one resource pattern of the policy
  statement added to the instance role is \<open>arn:aws:ssm:<region>:<account>:parameter/plausible/*\<close>,
  with the region in the fourth field and the account in the fifth, in both source files.
  Nothing is asked of the two values, so the non-empty ones are covered. The instance below
  is the scenario with account \<open>111122223333\<close> and region \<open>us-east-1\<close>.
\<close>

theorem iam_resource_pattern:
  assumes "Env (StackProps p) = Some e" and "Account e = Some a" and "Region e = Some r"
  shows "(\<exists>st. NewPlausibleStack scope i (Some p) = Inr st \<and>
              iamResources st = [''arn:aws:ssm:'' @ r @ '':'' @ a @ '':parameter/plausible/*'']) \<and>
         (\<exists>st. NewPlausibleStack_flat scope i (Some p) = Inr st \<and>
              iamResources st = [''arn:aws:ssm:'' @ r @ '':'' @ a @ '':parameter/plausible/*''])"
proof
  obtain st where st: "NewPlausibleStack scope i (Some p) = Inr st"
    using NewPlausibleStack_returns by blast
  have "account st = a" and "region st = r"
    using assms by (simp_all add: stack_env [OF st] NewStack_def)
  then have "iamResources st = [''arn:aws:ssm:'' @ r @ '':'' @ a @ '':parameter/plausible/*'']"
    by (simp add: iamResources_built [OF st])
  with st show "\<exists>st. NewPlausibleStack scope i (Some p) = Inr st \<and>
      iamResources st = [''arn:aws:ssm:'' @ r @ '':'' @ a @ '':parameter/plausible/*'']"
    by blast
next
  obtain st where st: "NewPlausibleStack_flat scope i (Some p) = Inr st"
    using NewPlausibleStack_flat_returns by blast
  have "account st = a" and "region st = r"
    using assms by (simp_all add: stack_env_flat [OF st] NewStack_def)
  then have "iamResources st = [''arn:aws:ssm:'' @ r @ '':'' @ a @ '':parameter/plausible/*'']"
    by (simp add: iamResources_built_flat [OF st])
  with st show "\<exists>st. NewPlausibleStack_flat scope i (Some p) = Inr st \<and>
      iamResources st = [''arn:aws:ssm:'' @ r @ '':'' @ a @ '':parameter/plausible/*'']"
    by blast
qed

theorem iam_resource_pattern_witness:
  "(\<exists>st. NewPlausibleStack
            \<lparr>Aws_ACCOUNT_ID = ''${AWS::AccountId}'', Aws_REGION = ''${AWS::Region}''\<rparr>
            ''plausible-stack''
            (Some \<lparr>StackProps = \<lparr>Env = Some \<lparr>Account = Some ''111122223333'',
                                               Region = Some ''us-east-1''\<rparr>\<rparr>\<rparr>) = Inr st \<and>
         iamResources st = [''arn:aws:ssm:us-east-1:111122223333:parameter/plausible/*'']) \<and>
   (\<exists>st. NewPlausibleStack_flat
            \<lparr>Aws_ACCOUNT_ID = ''${AWS::AccountId}'', Aws_REGION = ''${AWS::Region}''\<rparr>
            ''plausible-stack''
            (Some \<lparr>StackProps = \<lparr>Env = Some \<lparr>Account = Some ''111122223333'',
                                               Region = Some ''us-east-1''\<rparr>\<rparr>\<rparr>) = Inr st \<and>
         iamResources st = [''arn:aws:ssm:us-east-1:111122223333:parameter/plausible/*''])"
  using iam_resource_pattern
    [of "\<lparr>StackProps = \<lparr>Env = Some \<lparr>Account = Some ''111122223333'',
                                       Region = Some ''us-east-1''\<rparr>\<rparr>\<rparr>"
        "\<lparr>Account = Some ''111122223333'', Region = Some ''us-east-1''\<rparr>"
        "''111122223333''" "''us-east-1''"
        "\<lparr>Aws_ACCOUNT_ID = ''${AWS::AccountId}'', Aws_REGION = ''${AWS::Region}''\<rparr>"
        "''plausible-stack''"]
  by simp

section \<open>The security group\<close>

text \<open>
  C2. Whatever the scope, the id and the props, the security group of the instance holds
  exactly three ingress rules: TCP port 22, TCP port 80 and TCP port 443, each from
  \<open>0.0.0.0/0\<close>. No input reaches them, in either source file.
\<close>

theorem ingress_rules_fixed:
  "(\<exists>st g. NewPlausibleStack scope i (Some p) = Inr st \<and> theSecurityGroup st = Some g \<and>
      ingressRules g =
        [\<lparr>peer = CidrIPv4 ''0.0.0.0/0'',
          connection = \<lparr>protocol = TCP, fromPort = 22, toPort = 22\<rparr>,
          description = Some ''Allow SSH''\<rparr>,
         \<lparr>peer = CidrIPv4 ''0.0.0.0/0'',
          connection = \<lparr>protocol = TCP, fromPort = 80, toPort = 80\<rparr>,
          description = Some ''Allow HTTP''\<rparr>,
         \<lparr>peer = CidrIPv4 ''0.0.0.0/0'',
          connection = \<lparr>protocol = TCP, fromPort = 443, toPort = 443\<rparr>,
          description = Some ''Allow HTTPS''\<rparr>]) \<and>
   (\<exists>st g. NewPlausibleStack_flat scope i (Some p) = Inr st \<and> theSecurityGroup st = Some g \<and>
      ingressRules g =
        [\<lparr>peer = CidrIPv4 ''0.0.0.0/0'',
          connection = \<lparr>protocol = TCP, fromPort = 22, toPort = 22\<rparr>,
          description = Some ''Allow SSH''\<rparr>,
         \<lparr>peer = CidrIPv4 ''0.0.0.0/0'',
          connection = \<lparr>protocol = TCP, fromPort = 80, toPort = 80\<rparr>,
          description = Some ''Allow HTTP''\<rparr>,
         \<lparr>peer = CidrIPv4 ''0.0.0.0/0'',
          connection = \<lparr>protocol = TCP, fromPort = 443, toPort = 443\<rparr>,
          description = Some ''Allow HTTPS''\<rparr>])"
proof
  obtain st where st: "NewPlausibleStack scope i (Some p) = Inr st"
    using NewPlausibleStack_returns by blast
  show "\<exists>st g. NewPlausibleStack scope i (Some p) = Inr st \<and> theSecurityGroup st = Some g \<and>
      ingressRules g =
        [\<lparr>peer = CidrIPv4 ''0.0.0.0/0'',
          connection = \<lparr>protocol = TCP, fromPort = 22, toPort = 22\<rparr>,
          description = Some ''Allow SSH''\<rparr>,
         \<lparr>peer = CidrIPv4 ''0.0.0.0/0'',
          connection = \<lparr>protocol = TCP, fromPort = 80, toPort = 80\<rparr>,
          description = Some ''Allow HTTP''\<rparr>,
         \<lparr>peer = CidrIPv4 ''0.0.0.0/0'',
          connection = \<lparr>protocol = TCP, fromPort = 443, toPort = 443\<rparr>,
          description = Some ''Allow HTTPS''\<rparr>]"
    using st theSecurityGroup_built [OF st] by simp
next
  obtain st where st: "NewPlausibleStack_flat scope i (Some p) = Inr st"
    using NewPlausibleStack_flat_returns by blast
  show "\<exists>st g. NewPlausibleStack_flat scope i (Some p) = Inr st \<and> theSecurityGroup st = Some g \<and>
      ingressRules g =
        [\<lparr>peer = CidrIPv4 ''0.0.0.0/0'',
          connection = \<lparr>protocol = TCP, fromPort = 22, toPort = 22\<rparr>,
          description = Some ''Allow SSH''\<rparr>,
         \<lparr>peer = CidrIPv4 ''0.0.0.0/0'',
          connection = \<lparr>protocol = TCP, fromPort = 80, toPort = 80\<rparr>,
          description = Some ''Allow HTTP''\<rparr>,
         \<lparr>peer = CidrIPv4 ''0.0.0.0/0'',
          connection = \<lparr>protocol = TCP, fromPort = 443, toPort = 443\<rparr>,
          description = Some ''Allow HTTPS''\<rparr>]"
    using st theSecurityGroup_built_flat [OF st] by simp
qed

text \<open>
  C10. The security group is created with \<open>AllowAllOutbound\<close> set to true, for every
  scope, id and props, in both source files.
\<close>

theorem all_outbound_allowed:
  "(\<exists>st g. NewPlausibleStack scope i (Some p) = Inr st \<and> theSecurityGroup st = Some g \<and>
      AllowAllOutbound (sgProps g) = Some True) \<and>
   (\<exists>st g. NewPlausibleStack_flat scope i (Some p) = Inr st \<and> theSecurityGroup st = Some g \<and>
      AllowAllOutbound (sgProps g) = Some True)"
proof
  obtain st where st: "NewPlausibleStack scope i (Some p) = Inr st"
    using NewPlausibleStack_returns by blast
  show "\<exists>st g. NewPlausibleStack scope i (Some p) = Inr st \<and> theSecurityGroup st = Some g \<and>
      AllowAllOutbound (sgProps g) = Some True"
    using st theSecurityGroup_built [OF st] by simp
next
  obtain st where st: "NewPlausibleStack_flat scope i (Some p) = Inr st"
    using NewPlausibleStack_flat_returns by blast
  show "\<exists>st g. NewPlausibleStack_flat scope i (Some p) = Inr st \<and> theSecurityGroup st = Some g \<and>
      AllowAllOutbound (sgProps g) = Some True"
    using st theSecurityGroup_built_flat [OF st] by simp
qed

section \<open>The instance role\<close>

text \<open>
  C9. The role of the instance is assumed by the service principal \<open>ec2.amazonaws.com\<close>
  and by no other, and it carries the AWS managed policy \<open>AmazonSSMManagedInstanceCore\<close>
  next to its one statement, which allows \<open>ssm:GetParameter\<close> and \<open>ssm:GetParameters\<close>.
  So the role's permissions are not only those of that statement.
\<close>

theorem instance_role_principal_and_managed_policy:
  "(\<exists>st r. NewPlausibleStack scope i (Some p) = Inr st \<and> theRole st = Some r \<and>
      AssumedBy (roleProps r) = ServicePrincipal ''ec2.amazonaws.com'' \<and>
      ManagedPolicies (roleProps r) = [AwsManagedPolicy ''AmazonSSMManagedInstanceCore''] \<and>
      map Actions (statements r) = [[''ssm:GetParameter'', ''ssm:GetParameters'']]) \<and>
   (\<exists>st r. NewPlausibleStack_flat scope i (Some p) = Inr st \<and> theRole st = Some r \<and>
      AssumedBy (roleProps r) = ServicePrincipal ''ec2.amazonaws.com'' \<and>
      ManagedPolicies (roleProps r) = [AwsManagedPolicy ''AmazonSSMManagedInstanceCore''] \<and>
      map Actions (statements r) = [[''ssm:GetParameter'', ''ssm:GetParameters'']])"
proof
  obtain st where st: "NewPlausibleStack scope i (Some p) = Inr st"
    using NewPlausibleStack_returns by blast
  show "\<exists>st r. NewPlausibleStack scope i (Some p) = Inr st \<and> theRole st = Some r \<and>
      AssumedBy (roleProps r) = ServicePrincipal ''ec2.amazonaws.com'' \<and>
      ManagedPolicies (roleProps r) = [AwsManagedPolicy ''AmazonSSMManagedInstanceCore''] \<and>
      map Actions (statements r) = [[''ssm:GetParameter'', ''ssm:GetParameters'']]"
    using st theRole_built [OF st] by simp
next
  obtain st where st: "NewPlausibleStack_flat scope i (Some p) = Inr st"
    using NewPlausibleStack_flat_returns by blast
  show "\<exists>st r. NewPlausibleStack_flat scope i (Some p) = Inr st \<and> theRole st = Some r \<and>
      AssumedBy (roleProps r) = ServicePrincipal ''ec2.amazonaws.com'' \<and>
      ManagedPolicies (roleProps r) = [AwsManagedPolicy ''AmazonSSMManagedInstanceCore''] \<and>
      map Actions (statements r) = [[''ssm:GetParameter'', ''ssm:GetParameters'']]"
    using st theRole_built_flat [OF st] by simp
qed

section \<open>The order of the boot script\<close>

text \<open>
  C3. In the command list of every stack either builder returns, the region discovery is
  command 4 (counting from 0), the two secret exports are commands 5 and 6, and the
  workload start is command 11: each secret export comes strictly after the region
  discovery and strictly before the workload start.
\<close>

theorem secret_exports_between_region_and_start:
  assumes "bootCommands (NewPlausibleStack scope i props) = Some cmds \<or>
           bootCommands (NewPlausibleStack_flat scope i props) = Some cmds"
  shows "positions isRegionDiscovery cmds = [4] \<and>
         positions isSecretExport cmds = [5, 6] \<and>
         positions isWorkloadStart cmds = [11] \<and>
         (\<forall>s \<in> set (positions isSecretExport cmds).
            (\<forall>r \<in> set (positions isRegionDiscovery cmds). r < s) \<and>
            (\<forall>w \<in> set (positions isWorkloadStart cmds). s < w))"
proof -
  have pos: "positions isRegionDiscovery cmds = [4] \<and>
             positions isSecretExport cmds = [5, 6] \<and>
             positions isWorkloadStart cmds = [11]"
    using bootCommands_cases [OF assms]
    by (auto simp add: positions_commands positions_commands_flat)
  then show ?thesis by simp
qed

theorem secret_exports_between_region_and_start_witness:
  "bootCommands (NewPlausibleStack
      \<lparr>Aws_ACCOUNT_ID = ''${AWS::AccountId}'', Aws_REGION = ''${AWS::Region}''\<rparr>
      ''plausible-stack''
      (Some \<lparr>StackProps = \<lparr>Env = Some \<lparr>Account = Some ''111122223333'',
                                         Region = Some ''us-east-1''\<rparr>\<rparr>\<rparr>)) = Some commands \<and>
   positions isRegionDiscovery commands = [4] \<and>
   positions isSecretExport commands = [5, 6] \<and>
   positions isWorkloadStart commands = [11] \<and>
   commands ! 4 = ''REGION=$(curl -s http://169.254.169.254/latest/meta-data/placement/region)'' \<and>
   commands ! 11 = ''sudo docker-compose up -d''"
proof -
  have h: "bootCommands (NewPlausibleStack
      \<lparr>Aws_ACCOUNT_ID = ''${AWS::AccountId}'', Aws_REGION = ''${AWS::Region}''\<rparr>
      ''plausible-stack''
      (Some \<lparr>StackProps = \<lparr>Env = Some \<lparr>Account = Some ''111122223333'',
                                         Region = Some ''us-east-1''\<rparr>\<rparr>\<rparr>)) = Some commands"
    by (rule bootCommands_built)
  have n: "commands ! 4 = ''REGION=$(curl -s http://169.254.169.254/latest/meta-data/placement/region)''"
    "commands ! 11 = ''sudo docker-compose up -d''"
    by (simp_all add: commands_def)
  show ?thesis
    using h n secret_exports_between_region_and_start [OF disjI1 [OF h]] by simp
qed

text \<open>
  C4. In the command list of every stack either builder returns, the workload start is
  command 11, the certificate issuance is command 20, and the reverse-proxy commands are
  exactly commands 12 to 19. Among them are the nginx installation (12), the write of the
  site configuration (15), the symbolic link (16), the configuration test (18) and the
  restart (19). Every one of them comes strictly after the workload start and strictly
  before the certificate issuance.
\<close>

theorem proxy_config_between_start_and_certificate:
  assumes "bootCommands (NewPlausibleStack scope i props) = Some cmds \<or>
           bootCommands (NewPlausibleStack_flat scope i props) = Some cmds"
  shows "positions isWorkloadStart cmds = [11] \<and>
         positions isProxyConfig cmds = [12, 13, 14, 15, 16, 17, 18, 19] \<and>
         positions isCertIssuance cmds = [20] \<and>
         cmds ! 12 = ''sudo apt-get install -y nginx python3-certbot-nginx'' \<and>
         contains (cmds ! 15) ''/etc/nginx/sites-available/plausible'' \<and>
         contains (cmds ! 15) ''server_name analytics.ilmarlopez.com;'' \<and>
         cmds ! 16 =
           ''sudo ln -s /etc/nginx/sites-available/plausible /etc/nginx/sites-enabled/'' \<and>
         cmds ! 18 = ''sudo nginx -t'' \<and>
         cmds ! 19 = ''sudo systemctl restart nginx'' \<and>
         cmds ! 20 = ''sudo certbot --nginx -n --agree-tos --email me@ilmarlopez.com -d analytics.ilmarlopez.com --redirect'' \<and>
         (\<forall>c \<in> set (positions isProxyConfig cmds).
            (\<forall>w \<in> set (positions isWorkloadStart cmds). w < c) \<and>
            (\<forall>z \<in> set (positions isCertIssuance cmds). c < z))"
proof -
  have pos: "positions isWorkloadStart cmds = [11] \<and>
             positions isProxyConfig cmds = [12, 13, 14, 15, 16, 17, 18, 19] \<and>
             positions isCertIssuance cmds = [20]"
    using bootCommands_cases [OF assms]
    by (auto simp add: positions_commands positions_commands_flat)
  have named: "cmds ! 12 = ''sudo apt-get install -y nginx python3-certbot-nginx'' \<and>
         contains (cmds ! 15) ''/etc/nginx/sites-available/plausible'' \<and>
         contains (cmds ! 15) ''server_name analytics.ilmarlopez.com;'' \<and>
         cmds ! 16 =
           ''sudo ln -s /etc/nginx/sites-available/plausible /etc/nginx/sites-enabled/'' \<and>
         cmds ! 18 = ''sudo nginx -t'' \<and>
         cmds ! 19 = ''sudo systemctl restart nginx'' \<and>
         cmds ! 20 = ''sudo certbot --nginx -n --agree-tos --email me@ilmarlopez.com -d analytics.ilmarlopez.com --redirect''"
    using bootCommands_cases [OF assms] named_commands named_commands_flat by blast
  from pos named show ?thesis by simp
qed

theorem proxy_config_between_start_and_certificate_witness:
  "bootCommands (NewPlausibleStack_flat
      \<lparr>Aws_ACCOUNT_ID = ''${AWS::AccountId}'', Aws_REGION = ''${AWS::Region}''\<rparr>
      ''plausible-stack''
      (Some \<lparr>StackProps = \<lparr>Env = Some \<lparr>Account = Some ''111122223333'',
                                         Region = Some ''us-east-1''\<rparr>\<rparr>\<rparr>)) = Some commands_flat \<and>
   positions isWorkloadStart commands_flat = [11] \<and>
   positions isProxyConfig commands_flat = [12, 13, 14, 15, 16, 17, 18, 19] \<and>
   positions isCertIssuance commands_flat = [20] \<and>
   commands_flat ! 11 = ''sudo docker-compose up -d'' \<and>
   commands_flat ! 18 = ''sudo nginx -t''"
proof -
  have h: "bootCommands (NewPlausibleStack_flat
      \<lparr>Aws_ACCOUNT_ID = ''${AWS::AccountId}'', Aws_REGION = ''${AWS::Region}''\<rparr>
      ''plausible-stack''
      (Some \<lparr>StackProps = \<lparr>Env = Some \<lparr>Account = Some ''111122223333'',
                                         Region = Some ''us-east-1''\<rparr>\<rparr>\<rparr>)) = Some commands_flat"
    by (rule bootCommands_built_flat)
  have n: "commands_flat ! 11 = ''sudo docker-compose up -d''"
    by (simp add: commands_flat_def)
  show ?thesis
    using h n proxy_config_between_start_and_certificate [OF disjI2 [OF h]] by simp
qed

section \<open>The two source files compared\<close>

text \<open>
  C5, as stated: the flat command list and the list wrapped in the single part of the
  multipart form are equal, element by element. They are not: for the scenario inputs
  the two lists differ.
\<close>

theorem variants_same_commands_counterexample:
  "bootCommands (NewPlausibleStack_flat
      \<lparr>Aws_ACCOUNT_ID = ''${AWS::AccountId}'', Aws_REGION = ''${AWS::Region}''\<rparr>
      ''plausible-stack''
      (Some \<lparr>StackProps = \<lparr>Env = Some \<lparr>Account = Some ''111122223333'',
                                         Region = Some ''us-east-1''\<rparr>\<rparr>\<rparr>)) \<noteq>
   bootCommands (NewPlausibleStack
      \<lparr>Aws_ACCOUNT_ID = ''${AWS::AccountId}'', Aws_REGION = ''${AWS::Region}''\<rparr>
      ''plausible-stack''
      (Some \<lparr>StackProps = \<lparr>Env = Some \<lparr>Account = Some ''111122223333'',
                                         Region = Some ''us-east-1''\<rparr>\<rparr>\<rparr>))"
  using site_config_differs
  by (auto simp add: bootCommands_built bootCommands_built_flat)

text \<open>
  C5, amended: for every input, the multipart form holds one part, tagged
  \<open>text/x-shellscript; charset="utf-8"\<close>, and both lists have 22 commands that are equal
  at every position but one: command 15 (counting from 0), which writes the nginx site
  configuration, is a different text in the two files. Replacing it in the flat list by
  the multipart one gives the multipart list.
\<close>

theorem variants_differ_only_in_site_config:
  \<open>\<exists>flat multi st u.
     bootCommands (NewPlausibleStack_flat scope i (Some p)) = Some flat \<and>
     bootCommands (NewPlausibleStack scope i (Some p)) = Some multi \<and>
     NewPlausibleStack scope i (Some p) = Inr st \<and>
     map_option InstanceUserData (theInstance st) = Some (Multipart u) \<and>
     map contentType (parts u) = [''text/x-shellscript; charset="utf-8"''] \<and>
     length flat = 22 \<and> length multi = 22 \<and>
     take 15 flat = take 15 multi \<and>
     drop 16 flat = drop 16 multi \<and>
     flat ! 15 \<noteq> multi ! 15 \<and>
     flat[15 := multi ! 15] = multi\<close>
proof -
  obtain st where st: "NewPlausibleStack scope i (Some p) = Inr st"
    using NewPlausibleStack_returns by blast
  from multipart_one_part [OF st]
  obtain u where u: "map_option InstanceUserData (theInstance st) = Some (Multipart u)"
    and ct: \<open>map contentType (parts u) = [''text/x-shellscript; charset="utf-8"'']\<close>
    by (elim exE conjE)
  show ?thesis
  proof (intro exI conjI)
    show "bootCommands (NewPlausibleStack_flat scope i (Some p)) = Some commands_flat"
      by (rule bootCommands_built_flat)
    show "bootCommands (NewPlausibleStack scope i (Some p)) = Some commands"
      by (rule bootCommands_built)
    show "NewPlausibleStack scope i (Some p) = Inr st" by (rule st)
    show "map_option InstanceUserData (theInstance st) = Some (Multipart u)" by (rule u)
    show \<open>map contentType (parts u) = [''text/x-shellscript; charset="utf-8"'']\<close>
      by (rule ct)
    show "length commands_flat = 22" "length commands = 22" by (rule commands_length)+
    show "take 15 commands_flat = take 15 commands" by (rule commands_agree)
    show "drop 16 commands_flat = drop 16 commands" by (rule commands_agree)
    show "commands_flat ! 15 \<noteq> commands ! 15" by (rule site_config_differs)
    show "commands_flat[15 := commands ! 15] = commands" by (rule commands_agree)
  qed
qed

section \<open>The renewal job\<close>

text \<open>
  C6, as stated: the last command appends the renewal job to
  \<open>/etc/cron.d/certbot-renew\<close>, so that a second run duplicates the line. It does not:
  the command runs \<open>tee\<close> without \<open>-a\<close>. Run twice on an instance with no such file,
  it leaves the file with the line once, the same content as after one run; with the
  option \<open>-a\<close> the same pipeline would have left it twice.
\<close>

theorem cron_line_appended_counterexample:
  "bootCommands (NewPlausibleStack
      \<lparr>Aws_ACCOUNT_ID = ''${AWS::AccountId}'', Aws_REGION = ''${AWS::Region}''\<rparr>
      ''plausible-stack''
      (Some \<lparr>StackProps = \<lparr>Env = Some \<lparr>Account = Some ''111122223333'',
                                         Region = Some ''us-east-1''\<rparr>\<rparr>\<rparr>)) = Some commands \<and>
   readFile ''/etc/cron.d/certbot-renew'' (runTimes 2 (last commands) Map.empty) =
     Some ''0 0 * * * root /usr/bin/certbot renew --quiet\<newline>'' \<and>
   readFile ''/etc/cron.d/certbot-renew'' (runTimes 2 (last commands) Map.empty) =
     readFile ''/etc/cron.d/certbot-renew'' (runTimes 1 (last commands) Map.empty) \<and>
   readFile ''/etc/cron.d/certbot-renew'' (runTimes 2 (last commands) Map.empty) \<noteq>
     Some (''0 0 * * * root /usr/bin/certbot renew --quiet\<newline>'' @
           ''0 0 * * * root /usr/bin/certbot renew --quiet\<newline>'') \<and>
   readFile ''/etc/cron.d/certbot-renew''
     (runTimes 2 ''echo '0 0 * * * root /usr/bin/certbot renew --quiet' | sudo tee -a /etc/cron.d/certbot-renew''
        Map.empty) =
     Some (''0 0 * * * root /usr/bin/certbot renew --quiet\<newline>'' @
           ''0 0 * * * root /usr/bin/certbot renew --quiet\<newline>'')"
  by (simp add: bootCommands_built last_commands runCommand_last readFile_def
      eval_nat_numeral runCommand_def startsWith_def)

text \<open>
  C6, amended: for every input, in both source files, the last command of the boot script
  is the pipeline that sends the renewal line through \<open>tee\<close>, without \<open>-a\<close>, to
  \<open>/etc/cron.d/certbot-renew\<close>. Whatever the files were before, after the command the
  file holds that line and nothing else, and running the command again changes nothing.
\<close>

theorem cron_file_overwritten:
  "\<exists>multi flat.
     bootCommands (NewPlausibleStack scope i (Some p)) = Some multi \<and>
     bootCommands (NewPlausibleStack_flat scope i (Some p)) = Some flat \<and>
     last multi =
       ''echo '0 0 * * * root /usr/bin/certbot renew --quiet' | sudo tee /etc/cron.d/certbot-renew'' \<and>
     last flat = last multi \<and>
     (\<forall>fs. \<exists>fs'. runCommand (last multi) fs = Some fs' \<and>
        fs' ''/etc/cron.d/certbot-renew'' =
          Some ''0 0 * * * root /usr/bin/certbot renew --quiet\<newline>'' \<and>
        runCommand (last multi) fs' = Some fs')"
proof -
  have "\<forall>fs. \<exists>fs'. runCommand (last commands) fs = Some fs' \<and>
        fs' ''/etc/cron.d/certbot-renew'' =
          Some ''0 0 * * * root /usr/bin/certbot renew --quiet\<newline>'' \<and>
        runCommand (last commands) fs' = Some fs'"
    by (simp add: last_commands runCommand_last)
  then show ?thesis
    using bootCommands_built [of scope i p] bootCommands_built_flat [of scope i p]
      last_commands last_commands_flat
    by auto
qed

section \<open>Reproducible builds\<close>

text \<open>
  C7. The boot script is a function of the inputs of the build and of nothing else: the
  builders read no clock and draw no random number. More than that, the inputs do not
  reach it: any two builds, with the same inputs or with different ones, give the same
  command list, byte for byte, in each source file.
\<close>

theorem boot_commands_deterministic:
  "(\<exists>cmds. bootCommands (NewPlausibleStack scope i (Some p)) = Some cmds \<and>
           bootCommands (NewPlausibleStack scope' i' (Some p')) = Some cmds) \<and>
   (\<exists>cmds. bootCommands (NewPlausibleStack_flat scope i (Some p)) = Some cmds \<and>
           bootCommands (NewPlausibleStack_flat scope' i' (Some p')) = Some cmds)"
  by (simp add: bootCommands_built bootCommands_built_flat)

section \<open>Missing environment values\<close>

text \<open>
  C8. Descriptor construction validates nothing. For every process environment, the call
  \<open>main\<close> makes, \<open>NewPlausibleStack\<close> with the id \<open>plausible-stack\<close> and the environment
  \<open>env()\<close> read from the process, returns a stack. When the region is unset or empty,
  the resource pattern is built all the same, with an empty fourth field:
  \<open>arn:aws:ssm::<account>:parameter/plausible/*\<close>. When the account is unset or empty,
  the fifth field is empty. This holds for both source files. The statement is about the
  construction of the descriptors only, not about what \<open>app.Synth\<close> does with them
  afterwards.
\<close>

theorem missing_value_embeds_empty_segment:
  "(\<exists>st. NewPlausibleStack app ''plausible-stack''
            (Some \<lparr>StackProps = \<lparr>Env = Some (env environ)\<rparr>\<rparr>) = Inr st \<and>
      (os_Getenv environ ''CDK_DEFAULT_REGION'' = [] \<longrightarrow>
         iamResources st =
           [''arn:aws:ssm::'' @ os_Getenv environ ''CDK_DEFAULT_ACCOUNT'' @
            '':parameter/plausible/*'']) \<and>
      (os_Getenv environ ''CDK_DEFAULT_ACCOUNT'' = [] \<longrightarrow>
         iamResources st =
           [''arn:aws:ssm:'' @ os_Getenv environ ''CDK_DEFAULT_REGION'' @
            ''::parameter/plausible/*''])) \<and>
   (\<exists>st. NewPlausibleStack_flat app ''plausible-stack''
            (Some \<lparr>StackProps = \<lparr>Env = Some (env environ)\<rparr>\<rparr>) = Inr st \<and>
      (os_Getenv environ ''CDK_DEFAULT_REGION'' = [] \<longrightarrow>
         iamResources st =
           [''arn:aws:ssm::'' @ os_Getenv environ ''CDK_DEFAULT_ACCOUNT'' @
            '':parameter/plausible/*'']) \<and>
      (os_Getenv environ ''CDK_DEFAULT_ACCOUNT'' = [] \<longrightarrow>
         iamResources st =
           [''arn:aws:ssm:'' @ os_Getenv environ ''CDK_DEFAULT_REGION'' @
            ''::parameter/plausible/*'']))"
proof
  obtain st where st: "NewPlausibleStack app ''plausible-stack''
      (Some \<lparr>StackProps = \<lparr>Env = Some (env environ)\<rparr>\<rparr>) = Inr st"
    using NewPlausibleStack_returns ..
  have "iamResources st =
      [''arn:aws:ssm:'' @ os_Getenv environ ''CDK_DEFAULT_REGION'' @ '':'' @
       os_Getenv environ ''CDK_DEFAULT_ACCOUNT'' @ '':parameter/plausible/*'']"
    by (rule env_resources [OF st])
  with st show "\<exists>st. NewPlausibleStack app ''plausible-stack''
            (Some \<lparr>StackProps = \<lparr>Env = Some (env environ)\<rparr>\<rparr>) = Inr st \<and>
      (os_Getenv environ ''CDK_DEFAULT_REGION'' = [] \<longrightarrow>
         iamResources st =
           [''arn:aws:ssm::'' @ os_Getenv environ ''CDK_DEFAULT_ACCOUNT'' @
            '':parameter/plausible/*'']) \<and>
      (os_Getenv environ ''CDK_DEFAULT_ACCOUNT'' = [] \<longrightarrow>
         iamResources st =
           [''arn:aws:ssm:'' @ os_Getenv environ ''CDK_DEFAULT_REGION'' @
            ''::parameter/plausible/*''])"
    by simp
next
  obtain st where st: "NewPlausibleStack_flat app ''plausible-stack''
      (Some \<lparr>StackProps = \<lparr>Env = Some (env environ)\<rparr>\<rparr>) = Inr st"
    using NewPlausibleStack_flat_returns ..
  have "iamResources st =
      [''arn:aws:ssm:'' @ os_Getenv environ ''CDK_DEFAULT_REGION'' @ '':'' @
       os_Getenv environ ''CDK_DEFAULT_ACCOUNT'' @ '':parameter/plausible/*'']"
    by (rule env_resources_flat [OF st])
  with st show "\<exists>st. NewPlausibleStack_flat app ''plausible-stack''
            (Some \<lparr>StackProps = \<lparr>Env = Some (env environ)\<rparr>\<rparr>) = Inr st \<and>
      (os_Getenv environ ''CDK_DEFAULT_REGION'' = [] \<longrightarrow>
         iamResources st =
           [''arn:aws:ssm::'' @ os_Getenv environ ''CDK_DEFAULT_ACCOUNT'' @
            '':parameter/plausible/*'']) \<and>
      (os_Getenv environ ''CDK_DEFAULT_ACCOUNT'' = [] \<longrightarrow>
         iamResources st =
           [''arn:aws:ssm:'' @ os_Getenv environ ''CDK_DEFAULT_REGION'' @
            ''::parameter/plausible/*''])"
    by simp
qed

theorem missing_value_embeds_empty_segment_witness:
  "(\<exists>st. NewPlausibleStack
            \<lparr>Aws_ACCOUNT_ID = ''${AWS::AccountId}'', Aws_REGION = ''${AWS::Region}''\<rparr>
            ''plausible-stack''
            (Some \<lparr>StackProps =
               \<lparr>Env = Some (env [''CDK_DEFAULT_ACCOUNT'' \<mapsto> ''111122223333''])\<rparr>\<rparr>) = Inr st \<and>
         iamResources st = [''arn:aws:ssm::111122223333:parameter/plausible/*'']) \<and>
   (\<exists>st. NewPlausibleStack_flat
            \<lparr>Aws_ACCOUNT_ID = ''${AWS::AccountId}'', Aws_REGION = ''${AWS::Region}''\<rparr>
            ''plausible-stack''
            (Some \<lparr>StackProps =
               \<lparr>Env = Some (env [''CDK_DEFAULT_REGION'' \<mapsto> ''us-east-1''])\<rparr>\<rparr>) = Inr st \<and>
         iamResources st = [''arn:aws:ssm:us-east-1::parameter/plausible/*''])"
  using missing_value_embeds_empty_segment
      [of "\<lparr>Aws_ACCOUNT_ID = ''${AWS::AccountId}'', Aws_REGION = ''${AWS::Region}''\<rparr>"
          "[''CDK_DEFAULT_ACCOUNT'' \<mapsto> ''111122223333'']"]
    missing_value_embeds_empty_segment
      [of "\<lparr>Aws_ACCOUNT_ID = ''${AWS::AccountId}'', Aws_REGION = ''${AWS::Region}''\<rparr>"
          "[''CDK_DEFAULT_REGION'' \<mapsto> ''us-east-1'']"]
  by (simp add: os_Getenv_def)

end
